theory Spec2Isabelle
  imports Main "HOL-Library.FSet" "HOL-Library.AList"
begin

section \<open>Layer selection commands (\<^verbatim>\<open>napari/layers/points/_points_key_bindings.py\<close>)\<close>

text \<open>
  Modelled from the spec: the \<^verbatim>\<open>Points\<close> layer class is imported by the key-binding
  module and is not among the sources. The spec describes the selection as a set of integer
  indices into the point collection which the commands only read and replace, so the layer
  is a record holding the four attributes the two select commands touch: the point
  collection \<^verbatim>\<open>data\<close>, the finite set \<^verbatim>\<open>selected_data\<close>, the index array
  \<^verbatim>\<open>_indices_view\<close> and the displayed coordinates \<^verbatim>\<open>_view_data\<close>. The type of a
  point is left open; only the number of points is ever used.
\<close>

record 'p Points =
  data :: "'p list"
  selected_data :: "int fset"
  indices_view :: "int list"
  view_data :: "'p list"

text \<open>
  The messages handed to \<^verbatim>\<open>show_info\<close>, with the counts that are formatted into them.
\<close>

datatype info =
    Deselected_in_slice nat
  | Selected_in_slice nat nat
  | Cleared_all
  | Selected_all nat nat nat

text \<open>\<^verbatim>\<open>set(layer._indices_view[: len(layer._view_data)])\<close>\<close>

definition view_indices :: "'p Points \<Rightarrow> int fset" where
  "view_indices layer = fset_of_list (take (length (view_data layer)) (indices_view layer))"

text \<open>
  Each command mutates the layer and emits one message; the model returns both. Names are
  those of the source, without the leading underscore where the source has one.
\<close>

definition select_all_in_slice :: "'p Points \<Rightarrow> 'p Points \<times> info" where
  "select_all_in_slice layer =
     (let new_selected = view_indices layer in
      if new_selected |\<inter>| selected_data layer = new_selected then
        (let layer' = layer\<lparr>selected_data := selected_data layer |-| new_selected\<rparr>
         in (layer', Deselected_in_slice (fcard (selected_data layer'))))
      else
        (let layer' = layer\<lparr>selected_data := selected_data layer |\<union>| new_selected\<rparr>
         in (layer', Selected_in_slice (fcard new_selected) (fcard (selected_data layer')))))"

text \<open>\<^verbatim>\<open>set(range(layer.data.shape[0]))\<close>\<close>

definition all_indices :: "'p Points \<Rightarrow> int fset" where
  "all_indices layer = fset_of_list (map int [0 ..< length (data layer)])"

definition select_all_data :: "'p Points \<Rightarrow> 'p Points \<times> info" where
  "select_all_data layer =
     (if fcard (selected_data layer) = length (data layer) then
        (layer\<lparr>selected_data := {||}\<rparr>, Cleared_all)
      else
        (let new_selected = all_indices layer;
             view_selected = view_indices layer;
             layer' = layer\<lparr>selected_data := new_selected\<rparr>
         in (layer',
             Selected_all (fcard new_selected) (fcard (new_selected |-| view_selected))
               (fcard (selected_data layer')))))"


text \<open>Pressing the key of a command twice in a row, with no other change in between.\<close>

definition twice :: "('p Points \<Rightarrow> 'p Points \<times> info) \<Rightarrow> 'p Points \<Rightarrow> 'p Points" where
  "twice command layer = fst (command (fst (command layer)))"

section \<open>Installer builder (\<^verbatim>\<open>bundle_conda.py\<close>)\<close>

subsection \<open>Exceptions\<close>

text \<open>
  The exceptions the modelled code can raise. The first four are \<^verbatim>\<open>OSError\<close> and its
  subclasses, which is what \<^verbatim>\<open>except OSError\<close> catches.
\<close>

datatype py_error =
    OSError
  | FileNotFoundError
  | PermissionError
  | IsADirectoryError
  | IndexError
  | KeyError
  | TypeError
  | AssertionError
  | RuntimeError string
  | Other_error string

fun is_OSError :: "py_error \<Rightarrow> bool" where
  "is_OSError OSError = True"
| "is_OSError FileNotFoundError = True"
| "is_OSError PermissionError = True"
| "is_OSError IsADirectoryError = True"
| "is_OSError _ = False"

subsection \<open>The regular expression of \<^verbatim>\<open>_get_version\<close>\<close>

text \<open>
  Text is a list of characters with code points below 256. The pattern
  \<^verbatim>\<open>version\s?=\s?\'([^\']+)\<close> is a sequence of character classes, each taken once,
  optionally (\<^verbatim>\<open>?\<close>) or one or more times (\<^verbatim>\<open>+\<close>), the last one inside capture
  group 1. The matcher below is Python's backtracking search on patterns of that shape:
  quantifiers are greedy, a later piece that fails makes an earlier one give characters
  back, and the search returns the match at the leftmost start position.
\<close>

datatype cclass = Lit char | Whitespace | Not_char char

datatype quant = Once | Optional | One_or_more

type_synonym piece = "cclass \<times> quant \<times> bool"

text \<open>\<^verbatim>\<open>\s\<close> on \<^verbatim>\<open>str\<close>: the code points below 256 for which \<^verbatim>\<open>str.isspace\<close> holds.\<close>

definition isspace :: "char \<Rightarrow> bool" where
  "isspace c = (c \<in> set [CHR 0x09, CHR 0x0A, CHR 0x0B, CHR 0x0C, CHR 0x0D, CHR 0x1C, CHR 0x1D,
                          CHR 0x1E, CHR 0x1F, CHR 0x20, CHR 0x85, CHR 0xA0])"

fun accepts :: "cclass \<Rightarrow> char \<Rightarrow> bool" where
  "accepts (Lit a) c = (c = a)"
| "accepts Whitespace c = isspace c"
| "accepts (Not_char a) c = (c \<noteq> a)"

text \<open>The numbers of characters a piece may take at the head of \<open>s\<close>, in the order tried.\<close>

fun counts :: "cclass \<Rightarrow> quant \<Rightarrow> string \<Rightarrow> nat list" where
  "counts cl Once s = (case s of [] \<Rightarrow> [] | c # _ \<Rightarrow> if accepts cl c then [1] else [])"
| "counts cl Optional s = (case s of [] \<Rightarrow> [0] | c # _ \<Rightarrow> if accepts cl c then [1, 0] else [0])"
| "counts cl One_or_more s = rev [1 ..< Suc (length (takeWhile (accepts cl) s))]"

fun first_some :: "('a \<Rightarrow> 'b option) \<Rightarrow> 'a list \<Rightarrow> 'b option" where
  "first_some f [] = None"
| "first_some f (x # xs) = (case f x of Some y \<Rightarrow> Some y | None \<Rightarrow> first_some f xs)"

text \<open>
  A match of the pieces at the head of \<open>s\<close>; the result is the text of group 1
  (\<^verbatim>\<open>match.groups()[0]\<close>).
\<close>

fun match_here :: "piece list \<Rightarrow> string \<Rightarrow> string option" where
  "match_here [] s = Some []"
| "match_here ((cl, q, captured) # ps) s =
     first_some
       (\<lambda>k. case match_here ps (drop k s) of
              None \<Rightarrow> None
            | Some g \<Rightarrow> Some ((if captured then take k s else []) @ g))
       (counts cl q s)"

text \<open>\<^verbatim>\<open>re.search\<close>: every start position from the left, the end of the text included.\<close>

fun re_search :: "piece list \<Rightarrow> string \<Rightarrow> string option" where
  "re_search ps [] = match_here ps []"
| "re_search ps (c # cs) =
     (case match_here ps (c # cs) of Some g \<Rightarrow> Some g | None \<Rightarrow> re_search ps cs)"

definition version_pattern :: "piece list" where
  "version_pattern =
     map (\<lambda>c. (Lit c, Once, False)) ''version'' @
     [(Whitespace, Optional, False), (Lit CHR ''='', Once, False),
      (Whitespace, Optional, False), (Lit (CHR 0x27), Once, False),
      (Not_char (CHR 0x27), One_or_more, True)]"

text \<open>\<^verbatim>\<open>str.split(sep)\<close> for a separator of one character.\<close>

fun split :: "char \<Rightarrow> string \<Rightarrow> string list" where
  "split sep [] = [[]]"
| "split sep (c # cs) =
     (if c = sep then [] # split sep cs
      else (case split sep cs of [] \<Rightarrow> [[c]] | w # ws \<Rightarrow> (c # w) # ws))"

text \<open>Indexing a list, \<^verbatim>\<open>xs[i]\<close> for \<open>i \<ge> 0\<close>.\<close>

definition item :: "'a list \<Rightarrow> nat \<Rightarrow> py_error + 'a" where
  "item xs i = (if i < length xs then Inr (xs ! i) else Inl IndexError)"

subsection \<open>Version resolution\<close>

type_synonym environ = "string \<rightharpoonup> string"

text \<open>
  \<^verbatim>\<open>_get_version\<close> reads \<^verbatim>\<open>os.environ\<close> and the file
  \<^verbatim>\<open>HERE/napari/_version.py\<close>. The model takes the environment and the text of that
  file, \<open>None\<close> when the file cannot be opened (\<^verbatim>\<open>open\<close> raises). The result is a Python
  value: a string, or \<^verbatim>\<open>None\<close> when the function ends without reaching a
  \<^verbatim>\<open>return\<close>.
\<close>

definition get_version :: "environ \<Rightarrow> string option \<Rightarrow> py_error + string option" where
  "get_version env version_py =
     (case env ''CONSTRUCTOR_NAPARI_VERSION'' of
        Some v \<Rightarrow> Inr (Some v)
      | None \<Rightarrow>
         (case version_py of
            None \<Rightarrow> Inl FileNotFoundError
          | Some text \<Rightarrow>
             (case re_search version_pattern text of
                Some g \<Rightarrow>
                  (case item (split CHR ''+'' g) 0 of
                     Inl e \<Rightarrow> Inl e
                   | Inr v \<Rightarrow> Inr (Some v))
              | None \<Rightarrow> Inr None)))"

text \<open>
  The text before a version assignment holds no earlier match of the pattern: the search
  fails at each of its start positions.
\<close>

fun no_match_before :: "piece list \<Rightarrow> string \<Rightarrow> string \<Rightarrow> bool" where
  "no_match_before ps [] rest = True"
| "no_match_before ps (c # pre) rest =
     (match_here ps (c # pre @ rest) = None \<and> no_match_before ps pre rest)"

subsection \<open>Module constants and derived names\<close>

text \<open>
  The constants the module computes when it is imported (from \<^verbatim>\<open>os\<close>, \<^verbatim>\<open>sys\<close>,
  \<^verbatim>\<open>platform\<close> and the environment), together with \<^verbatim>\<open>os.path.join\<close>, which depends
  on the host system.
\<close>

record module_constants =
  APP :: string
  HERE :: string
  WINDOWS :: bool
  MACOS :: bool
  LINUX :: bool
  ARCH :: string
  EXT :: string
  OS :: string
  path_join :: "string list \<Rightarrow> string"

text \<open>What an f-string prints for a value that is a string or \<^verbatim>\<open>None\<close>.\<close>

definition fmt :: "string option \<Rightarrow> string" where
  "fmt v = (case v of None \<Rightarrow> ''None'' | Some s \<Rightarrow> s)"

text \<open>\<^verbatim>\<open>OUTPUT_FILENAME = f"{APP}-{_get_version()}-{OS}-{ARCH}.{EXT}"\<close>\<close>

definition OUTPUT_FILENAME ::
  "module_constants \<Rightarrow> environ \<Rightarrow> string option \<Rightarrow> py_error + string" where
  "OUTPUT_FILENAME mc env version_py =
     (case get_version env version_py of
        Inl e \<Rightarrow> Inl e
      | Inr version \<Rightarrow>
          Inr (APP mc @ ''-'' @ fmt version @ ''-'' @ OS mc @ ''-'' @ ARCH mc @ ''.'' @ EXT mc))"

subsection \<open>The definitions handed to the installer builder\<close>

datatype yaml = Null | Str string | Bool bool | Seq "yaml list" | Dict "(string \<times> yaml) list"

text \<open>Truth value of \<^verbatim>\<open>os.environ.get(name)\<close>: set, and not the empty string.\<close>

definition env_get :: "environ \<Rightarrow> string \<Rightarrow> string option" where
  "env_get env name = (case env name of None \<Rightarrow> None | Some v \<Rightarrow> if v = [] then None else Some v)"

definition get_channels :: "module_constants \<Rightarrow> environ \<Rightarrow> string list" where
  "get_channels mc env =
     (case env_get env ''CONSTRUCTOR_USE_LOCAL'' of None \<Rightarrow> [] | Some _ \<Rightarrow> [''local'']) @
     [''napari/label/nightly''] @
     (if ARCH mc = ''arm64'' then [''andfoy''] else []) @
     [''napari/label/bundle_tools'', ''conda-forge'']"

text \<open>The three lists \<^verbatim>\<open>_get_dependencies\<close> returns.\<close>

record dependencies =
  base :: "string list"
  napari :: "string list"
  menu_packages :: "string list"

text \<open>A dictionary keeps its keys in insertion order; assigning to a key replaces its value.\<close>

definition assign :: "string \<Rightarrow> yaml \<Rightarrow> (string \<times> yaml) list \<Rightarrow> (string \<times> yaml) list" where
  "assign k v d = AList.update k v d"

definition py_value :: "string option \<Rightarrow> yaml" where
  "py_value v = (case v of None \<Rightarrow> Null | Some s \<Rightarrow> Str s)"

text \<open>The dictionary literal at the start of \<^verbatim>\<open>_constructor\<close>.\<close>

definition initial_definitions ::
  "module_constants \<Rightarrow> environ \<Rightarrow> string option \<Rightarrow> dependencies \<Rightarrow> string \<Rightarrow> string
   \<Rightarrow> (string \<times> yaml) list" where
  "initial_definitions mc env version deps output_filename empty_file_name =
     (assign ''extra_files''
        (Dict (assign empty_file_name (Str ''.napari_is_bundled_constructor'')
                (assign ''resources/bundle_readme.md'' (Str ''README.txt'') []))) \<circ>
      assign ''menu_packages'' (Seq (map Str (menu_packages deps))) \<circ>
      assign ''extra_envs''
        (Dict [(''napari-'' @ fmt version, Dict [(''specs'', Seq (map Str (napari deps)))])]) \<circ>
      assign ''specs'' (Seq (map Str (base deps))) \<circ>
      assign ''license_file''
        (Str (path_join mc [HERE mc, ''resources'', ''bundle_license.rtf''])) \<circ>
      assign ''initialize_by_default'' (Bool False) \<circ>
      assign ''installer_filename'' (Str output_filename) \<circ>
      assign ''conda_default_channels'' (Seq [Str ''conda-forge'']) \<circ>
      assign ''channels'' (Seq (map Str (get_channels mc env))) \<circ>
      assign ''version'' (py_value version) \<circ>
      assign ''reverse_domain_identifier'' (Str ''org.napari'') \<circ>
      assign ''company'' (Str ''Napari'') \<circ>
      assign ''name'' (Str (APP mc))) []"

definition linux_definitions ::
  "module_constants \<Rightarrow> string option \<Rightarrow> (string \<times> yaml) list \<Rightarrow> (string \<times> yaml) list" where
  "linux_definitions mc version =
     assign ''installer_type'' (Str ''sh'') \<circ>
     assign ''license_file''
       (Str (path_join mc [HERE mc, ''resources'', ''bundle_license.txt''])) \<circ>
     assign ''default_prefix''
       (Str (path_join mc [''$HOME'', ''.local'', APP mc @ ''-'' @ fmt version]))"

definition assign_if_set ::
  "environ \<Rightarrow> string \<Rightarrow> string \<Rightarrow> (string \<times> yaml) list \<Rightarrow> (string \<times> yaml) list" where
  "assign_if_set env name k d =
     (case env_get env name of None \<Rightarrow> d | Some v \<Rightarrow> assign k (Str v) d)"

text \<open>
  The macOS branch reads the welcome template (\<open>None\<close>: the file is missing) and replaces
  \<^verbatim>\<open>__VERSION__\<close> in it by the version, which \<^verbatim>\<open>str.replace\<close> refuses for
  \<^verbatim>\<open>None\<close>.
\<close>

definition macos_definitions ::
  "module_constants \<Rightarrow> environ \<Rightarrow> string option \<Rightarrow> string option \<Rightarrow> (string \<times> yaml) list
   \<Rightarrow> py_error + (string \<times> yaml) list" where
  "macos_definitions mc env version welcome_text_tmpl d =
     (case welcome_text_tmpl of
        None \<Rightarrow> Inl FileNotFoundError
      | Some _ \<Rightarrow>
         (case version of
            None \<Rightarrow> Inl TypeError
          | Some _ \<Rightarrow>
              Inr ((assign_if_set env ''CONSTRUCTOR_NOTARIZATION_IDENTITY''
                      ''notarization_identity_name'' \<circ>
                    assign_if_set env ''CONSTRUCTOR_SIGNING_IDENTITY'' ''signing_identity_name'' \<circ>
                    assign ''readme_text'' (Str []) \<circ>
                    assign ''conclusion_text'' (Str []) \<circ>
                    assign ''welcome_file''
                      (Str (path_join mc [HERE mc, ''resources'', ''osx_pkg_welcome.rtf''])) \<circ>
                    assign ''welcome_image''
                      (Str (path_join mc [HERE mc, ''resources'', ''napari_1227x600.png''])) \<circ>
                    assign ''installer_type'' (Str ''pkg'') \<circ>
                    assign ''default_location_pkg'' (Str ''Library'') \<circ>
                    assign ''name'' (Str (APP mc @ ''-'' @ fmt version))) d)))"

text \<open>\<^verbatim>\<open>definitions["conda_default_channels"].append("defaults")\<close>\<close>

definition append_default_channel :: "(string \<times> yaml) list \<Rightarrow> py_error + (string \<times> yaml) list" where
  "append_default_channel d =
     (case map_of d ''conda_default_channels'' of
        None \<Rightarrow> Inl KeyError
      | Some (Seq xs) \<Rightarrow> Inr (assign ''conda_default_channels'' (Seq (xs @ [Str ''defaults''])) d)
      | Some _ \<Rightarrow> Inl (Other_error ''AttributeError''))"

definition windows_definitions ::
  "module_constants \<Rightarrow> environ \<Rightarrow> string option \<Rightarrow> (string \<times> yaml) list
   \<Rightarrow> py_error + (string \<times> yaml) list" where
  "windows_definitions mc env version d =
     (case append_default_channel d of
        Inl e \<Rightarrow> Inl e
      | Inr d' \<Rightarrow>
          Inr ((assign_if_set env ''CONSTRUCTOR_SIGNING_CERTIFICATE'' ''signing_certificate'' \<circ>
                assign ''installer_type'' (Str ''exe'') \<circ>
                assign ''check_path_length'' (Bool False) \<circ>
                assign ''default_prefix_all_users''
                  (Str (path_join mc [''%ALLUSERSPROFILE%'', APP mc @ ''-'' @ fmt version])) \<circ>
                assign ''default_prefix_domain_user''
                  (Str (path_join mc [''%LOCALAPPDATA%'', APP mc @ ''-'' @ fmt version])) \<circ>
                assign ''default_prefix''
                  (Str (path_join mc [''%LOCALAPPDATA%'', APP mc @ ''-'' @ fmt version])) \<circ>
                assign ''register_python_default'' (Bool False) \<circ>
                assign ''icon_image''
                  (Str (path_join mc [HERE mc, ''napari'', ''resources'', ''icon.ico''])) \<circ>
                assign ''header_image''
                  (Str (path_join mc [HERE mc, ''resources'', ''napari_150x57.png''])) \<circ>
                assign ''welcome_image''
                  (Str (path_join mc [HERE mc, ''resources'', ''napari_164x314.png'']))) d'))"

text \<open>
  What \<^verbatim>\<open>_constructor\<close> reads from outside: the environment, the version file, the path
  of the \<^verbatim>\<open>constructor\<close> executable (\<open>None\<close>: not installed), the result of
  \<^verbatim>\<open>_get_dependencies\<close>, the name of the temporary empty file and the welcome template.
\<close>

record constructor_inputs =
  environ :: environ
  version_py :: "string option"
  constructor_exe :: "string option"
  get_dependencies :: "py_error + dependencies"
  empty_file_name :: string
  welcome_text_tmpl :: "string option"

text \<open>
  The dictionary \<^verbatim>\<open>definitions\<close> as \<^verbatim>\<open>_constructor\<close> has built it when the three
  platform branches are done, or the exception raised on the way.
\<close>

definition constructor_definitions ::
  "module_constants \<Rightarrow> constructor_inputs \<Rightarrow> py_error + (string \<times> yaml) list" where
  "constructor_definitions mc inp =
     (case OUTPUT_FILENAME mc (environ inp) (version_py inp) of
        Inl e \<Rightarrow> Inl e
      | Inr output_filename \<Rightarrow>
     (case constructor_exe inp of
        None \<Rightarrow> Inl (RuntimeError ''Constructor must be installed.'')
      | Some _ \<Rightarrow>
     (case get_version (environ inp) (version_py inp) of
        Inl e \<Rightarrow> Inl e
      | Inr version \<Rightarrow>
     (case get_dependencies inp of
        Inl e \<Rightarrow> Inl e
      | Inr deps \<Rightarrow>
     (let d0 = initial_definitions mc (environ inp) version deps output_filename
                 (empty_file_name inp);
          d1 = (if LINUX mc then linux_definitions mc version d0 else d0)
      in
     (case (if MACOS mc
            then macos_definitions mc (environ inp) version (welcome_text_tmpl inp) d1
            else Inr d1) of
        Inl e \<Rightarrow> Inl e
      | Inr d2 \<Rightarrow>
          (if WINDOWS mc then windows_definitions mc (environ inp) version d2
           else Inr d2)))))))"

text \<open>The entries of the definitions that carry the version.\<close>

definition version_keys :: "string set" where
  "version_keys = {''version'', ''installer_filename'', ''extra_envs''}"

subsection \<open>License archive\<close>

text \<open>
  The part of the parsed \<^verbatim>\<open>info.json\<close> that \<^verbatim>\<open>licenses\<close> reads: under the key
  \<^verbatim>\<open>_licenses\<close> (\<open>None\<close>: the key is missing), a dictionary from package identifiers
  to dictionaries from license types to lists of license file paths. Dictionaries are
  association lists in the order \<^verbatim>\<open>items()\<close> yields them.
\<close>

type_synonym license_table = "(string \<times> (string \<times> string list) list) list"

record manifest =
  licenses_entry :: "license_table option"

text \<open>A zip archive is the list of its entries, name and content, in the order written.\<close>

type_synonym archive = "(string \<times> string) list"

text \<open>The rest of \<open>s\<close> after the prefix \<open>p\<close>, if \<open>s\<close> starts with \<open>p\<close>.\<close>

fun match_literal :: "string \<Rightarrow> string \<Rightarrow> string option" where
  "match_literal [] s = Some s"
| "match_literal (p # ps) [] = None"
| "match_literal (p # ps) (c # cs) = (if p = c then match_literal ps cs else None)"

text \<open>\<^verbatim>\<open>s.split(sep, 1)\<close> for a non-empty separator: cut at the first occurrence, if any.\<close>

fun split_once :: "string \<Rightarrow> string \<Rightarrow> string list" where
  "split_once sep [] = [[]]"
| "split_once sep (c # cs) =
     (case match_literal sep (c # cs) of
        Some rest \<Rightarrow> [[], rest]
      | None \<Rightarrow> (case split_once sep cs of [] \<Rightarrow> [[c]] | w # ws \<Rightarrow> (c # w) # ws))"

fun contains :: "string \<Rightarrow> string \<Rightarrow> bool" where
  "contains sep [] = (sep = [])"
| "contains sep (c # cs) = (match_literal sep (c # cs) \<noteq> None \<or> contains sep cs)"

text \<open>\<^verbatim>\<open>license_type.replace(' ', '_')\<close>\<close>

definition replace_char :: "char \<Rightarrow> char \<Rightarrow> string \<Rightarrow> string" where
  "replace_char old new s = map (\<lambda>c. if c = old then new else c) s"

text \<open>A natural number in decimal, as an f-string prints it.\<close>

fun str_nat :: "nat \<Rightarrow> string" where
  "str_nat n =
     (if n < 10 then [''0123456789'' ! n]
      else str_nat (n div 10) @ [''0123456789'' ! (n mod 10)])"

text \<open>
  \<^verbatim>\<open>ZipFile.write(filename, arcname)\<close>: the file is read and appended as a new entry; a
  name already in the archive is not replaced. The files are a map from paths to contents.
\<close>

definition zip_write ::
  "(string \<rightharpoonup> string) \<Rightarrow> string \<Rightarrow> string \<Rightarrow> archive \<Rightarrow> py_error + archive" where
  "zip_write files filename arcname z =
     (case files filename of
        None \<Rightarrow> Inl FileNotFoundError
      | Some content \<Rightarrow> Inr (z @ [(arcname, content)]))"

text \<open>The three nested loops, innermost first; \<open>i\<close> is the counter of \<^verbatim>\<open>enumerate\<close>.\<close>

fun write_license_files ::
  "(string \<rightharpoonup> string) \<Rightarrow> string \<Rightarrow> string \<Rightarrow> nat \<Rightarrow> string list \<Rightarrow> archive
   \<Rightarrow> py_error + archive" where
  "write_license_files files package_name license_type i [] z = Inr z"
| "write_license_files files package_name license_type i (license_file # rest) z =
     (case zip_write files license_file
             (package_name @ ''.'' @ replace_char CHR '' '' CHR ''_'' license_type @ ''.'' @
              str_nat i @ ''.txt'') z of
        Inl e \<Rightarrow> Inl e
      | Inr z' \<Rightarrow> write_license_files files package_name license_type (Suc i) rest z')"

fun write_license_info ::
  "(string \<rightharpoonup> string) \<Rightarrow> string \<Rightarrow> (string \<times> string list) list \<Rightarrow> archive
   \<Rightarrow> py_error + archive" where
  "write_license_info files package_name [] z = Inr z"
| "write_license_info files package_name ((license_type, license_files) # rest) z =
     (case write_license_files files package_name license_type 1 license_files z of
        Inl e \<Rightarrow> Inl e
      | Inr z' \<Rightarrow> write_license_info files package_name rest z')"

fun write_packages ::
  "(string \<rightharpoonup> string) \<Rightarrow> license_table \<Rightarrow> archive \<Rightarrow> py_error + archive" where
  "write_packages files [] z = Inr z"
| "write_packages files ((package_id, license_info) # rest) z =
     (case item (split_once ''::'' package_id) 1 of
        Inl e \<Rightarrow> Inl e
      | Inr package_name \<Rightarrow>
         (case write_license_info files package_name license_info z of
            Inl e \<Rightarrow> Inl e
          | Inr z' \<Rightarrow> write_packages files rest z'))"

text \<open>
  \<^verbatim>\<open>licenses\<close> returns the name of the archive; the model returns the archive with it.
  \<open>json_load\<close> is the JSON decoder applied to the text of \<^verbatim>\<open>info.json\<close>. When the
  manifest is missing the source prints a hint and raises the exception again; the hint is
  left out.
\<close>

definition licenses ::
  "(string \<Rightarrow> py_error + manifest) \<Rightarrow> module_constants \<Rightarrow> (string \<rightharpoonup> string)
   \<Rightarrow> py_error + string \<times> archive" where
  "licenses json_load mc files =
     (case files ''info.json'' of
        None \<Rightarrow> Inl FileNotFoundError
      | Some text \<Rightarrow>
     (case json_load text of
        Inl e \<Rightarrow> Inl e
      | Inr info \<Rightarrow>
     (let zipname = ''licenses.'' @ OS mc @ ''-'' @ ARCH mc @ ''.zip'' in
     (case zip_write files ''info.json'' ''info.json'' [] of
        Inl e \<Rightarrow> Inl e
      | Inr z \<Rightarrow>
     (case licenses_entry info of
        None \<Rightarrow> Inl KeyError
      | Some table \<Rightarrow>
     (case write_packages files table z of
        Inl e \<Rightarrow> Inl e
      | Inr z' \<Rightarrow> Inr (zipname, z')))))))"

text \<open>The number \<open>N\<close> of license file paths a table lists, over all packages and types.\<close>

definition n_license_files :: "license_table \<Rightarrow> nat" where
  "n_license_files table =
     sum_list (map (\<lambda>(package_id, license_info).
                 sum_list (map (\<lambda>(license_type, license_files). length license_files)
                            license_info)) table)"

text \<open>Every package identifier has the form \<^verbatim>\<open>channel::name\<close>.\<close>

definition qualified_ids :: "license_table \<Rightarrow> bool" where
  "qualified_ids table = list_all (\<lambda>(package_id, license_info). contains ''::'' package_id) table"

text \<open>Every license file the table lists is there to be read.\<close>

definition license_files_present :: "(string \<rightharpoonup> string) \<Rightarrow> license_table \<Rightarrow> bool" where
  "license_files_present files table =
     list_all (\<lambda>(package_id, license_info).
        list_all (\<lambda>(license_type, license_files).
           list_all (\<lambda>license_file. files license_file \<noteq> None) license_files)
         license_info) table"

subsection \<open>The build and its cleanup\<close>

text \<open>
  The state \<^verbatim>\<open>main\<close> works on: the file system (of any type \<open>'fs\<close>), the module's list
  \<^verbatim>\<open>clean_these_files\<close>, the lines printed, and the paths \<^verbatim>\<open>os.unlink\<close> was called
  with, in order.
\<close>

record 'fs run_state =
  fs :: 'fs
  clean_these_files :: "string list"
  stdout :: "string list"
  unlink_calls :: "string list"

text \<open>
  The loop of the \<^verbatim>\<open>finally\<close> block. \<open>os_unlink\<close> returns the file system without the
  file, or the exception it raises; \<^verbatim>\<open>except OSError\<close> catches the exceptions of that
  class and any other one ends the loop.
\<close>

fun cleanup ::
  "('fs \<Rightarrow> string \<Rightarrow> py_error + 'fs) \<Rightarrow> string list \<Rightarrow> 'fs run_state
   \<Rightarrow> (py_error + unit) \<times> 'fs run_state" where
  "cleanup os_unlink [] st = (Inr (), st)"
| "cleanup os_unlink (path # rest) st =
     (let st' = st\<lparr>unlink_calls := unlink_calls st @ [path]\<rparr> in
      case os_unlink (fs st) path of
        Inr fs' \<Rightarrow> cleanup os_unlink rest (st'\<lparr>fs := fs'\<rparr>)
      | Inl e \<Rightarrow>
          if is_OSError e
          then cleanup os_unlink rest (st'\<lparr>stdout := stdout st' @ [''! Could not remove '' @ path]\<rparr>)
          else (Inl e, st'))"

text \<open>
  \<^verbatim>\<open>main\<close>: the build step \<open>constructor\<close> (the call of \<^verbatim>\<open>_constructor\<close>, with all its
  effects on the state) returns or raises, then the \<^verbatim>\<open>finally\<close> block runs over the
  list as the build left it; an exception of the block replaces the outcome, otherwise an
  exception of the build is raised again, and after a build that returned the installer
  file must exist.
\<close>

definition main ::
  "('fs \<Rightarrow> string \<Rightarrow> py_error + 'fs) \<Rightarrow> ('fs \<Rightarrow> string \<Rightarrow> bool)
   \<Rightarrow> ('fs run_state \<Rightarrow> (py_error + string) \<times> 'fs run_state) \<Rightarrow> string \<Rightarrow> 'fs run_state
   \<Rightarrow> (py_error + string) \<times> 'fs run_state" where
  "main os_unlink path_exists constructor output_filename st =
     (case constructor st of (built, st1) \<Rightarrow>
      (case cleanup os_unlink (clean_these_files st1) st1 of (cleaned, st2) \<Rightarrow>
       (case cleaned of
          Inl e \<Rightarrow> (Inl e, st2)
        | Inr _ \<Rightarrow>
           (case built of
              Inl e \<Rightarrow> (Inl e, st2)
            | Inr _ \<Rightarrow>
                if path_exists (fs st2) output_filename then (Inr output_filename, st2)
                else (Inl AssertionError, st2)))))"

text \<open>
  Best-effort deletion spelled out: the file system after trying each path in turn, and
  the paths whose deletion failed.
\<close>

fun after_deletions :: "('fs \<Rightarrow> string \<Rightarrow> py_error + 'fs) \<Rightarrow> string list \<Rightarrow> 'fs \<Rightarrow> 'fs" where
  "after_deletions os_unlink [] f = f"
| "after_deletions os_unlink (path # rest) f =
     (case os_unlink f path of
        Inr f' \<Rightarrow> after_deletions os_unlink rest f'
      | Inl e \<Rightarrow> after_deletions os_unlink rest f)"

fun failed_deletions ::
  "('fs \<Rightarrow> string \<Rightarrow> py_error + 'fs) \<Rightarrow> string list \<Rightarrow> 'fs \<Rightarrow> string list" where
  "failed_deletions os_unlink [] f = []"
| "failed_deletions os_unlink (path # rest) f =
     (case os_unlink f path of
        Inr f' \<Rightarrow> failed_deletions os_unlink rest f'
      | Inl e \<Rightarrow> path # failed_deletions os_unlink rest f)"

text \<open>
  A file system to run the model on: the regular files, by path. \<^verbatim>\<open>os.unlink\<close> removes
  a file that is there and raises \<^verbatim>\<open>FileNotFoundError\<close> for one that is not.
\<close>

definition unlink_file ::
  "(string \<times> string) list \<Rightarrow> string \<Rightarrow> py_error + (string \<times> string) list" where
  "unlink_file files path =
     (case map_of files path of
        None \<Rightarrow> Inl FileNotFoundError
      | Some _ \<Rightarrow> Inr (AList.delete path files))"

definition file_exists :: "(string \<times> string) list \<Rightarrow> string \<Rightarrow> bool" where
  "file_exists files path = (map_of files path \<noteq> None)"

subsection \<open>Sample inputs\<close>

text \<open>A Linux host, with the POSIX \<^verbatim>\<open>os.path.join\<close> of relative components.\<close>

definition sample_constants :: module_constants where
  "sample_constants =
     \<lparr>APP = ''napari'', HERE = ''/repo'', WINDOWS = False, MACOS = False, LINUX = True,
      ARCH = ''x86_64'', EXT = ''sh'', OS = ''Linux'',
      path_join = (\<lambda>ps. case ps of [] \<Rightarrow> [] | p # qs \<Rightarrow> foldl (\<lambda>a b. a @ ''/'' @ b) p qs)\<rparr>"

text \<open>A run with the version override set to a version that has a local suffix.\<close>

definition sample_inputs :: constructor_inputs where
  "sample_inputs =
     \<lparr>environ = [''CONSTRUCTOR_NAPARI_VERSION'' \<mapsto> ''1.2.3+abc''],
      version_py = Some (''version = '0.4.0'' @ [CHR 0x27]),
      constructor_exe = Some ''/usr/bin/constructor'',
      get_dependencies =
        Inr \<lparr>base = [''python=3.9.*'', ''conda''],
             napari = [''napari=1.2.3+abc=*pyside*'', ''napari-menu=1.2.3+abc''],
             menu_packages = [''napari-menu'']\<rparr>,
      empty_file_name = ''/tmp/tmpab12'',
      welcome_text_tmpl = None\<rparr>"

text \<open>A version file as \<^verbatim>\<open>setuptools-scm\<close> writes it, up to the version assignment.\<close>

definition sample_version_prefix :: string where
  "sample_version_prefix =
     ''# file generated by setuptools_scm'' @ [CHR 0x0A] @
     ''# don't change, don't track in version control'' @ [CHR 0x0A] @
     ''__version__ = ''"

definition sample_version_suffix :: string where
  "sample_version_suffix = [CHR 0x0A] @ ''__version_tuple__ = version_tuple = (1, 2, 3)'' @ [CHR 0x0A]"

text \<open>A manifest with three license files in two packages, and the files on disk.\<close>

definition sample_table :: license_table where
  "sample_table =
     [(''conda-forge::python-3.9.7'', [(''PSF License'', [''/pkgs/py/LICENSE'', ''/pkgs/py/NOTICE'']),
                                       (''BSD'', [])]),
      (''conda-forge::numpy-1.21.2'', [(''BSD 3 Clause'', [''/pkgs/np/LICENSE.txt''])])]"

definition sample_files :: "string \<rightharpoonup> string" where
  "sample_files =
     map_of [(''info.json'', ''{...}''), (''/pkgs/py/LICENSE'', ''PSF''),
             (''/pkgs/py/NOTICE'', ''notice''), (''/pkgs/np/LICENSE.txt'', ''BSD'')]"

definition sample_json_load :: "string \<Rightarrow> py_error + manifest" where
  "sample_json_load text = Inr \<lparr>licenses_entry = Some sample_table\<rparr>"

text \<open>
  Two builds that register three temporary files, one of which they never created: one
  returns after writing the installer, the other raises.
\<close>

definition sample_state :: "(string \<times> string) list run_state" where
  "sample_state = \<lparr>fs = [(''setup.cfg'', ''cfg'')], clean_these_files = [], stdout = [],
                    unlink_calls = []\<rparr>"

definition sample_build ::
  "bool \<Rightarrow> (string \<times> string) list run_state
   \<Rightarrow> (py_error + string) \<times> (string \<times> string) list run_state" where
  "sample_build succeeds st =
     (if succeeds then Inr ''napari-1.2.3-Linux-x86_64.sh''
      else Inl (Other_error ''CalledProcessError''),
      st\<lparr>fs := fs st @ [(''construct.yaml'', ''name: napari''), (''/tmp/tmpab12'', [])] @
                 (if succeeds then [(''napari-1.2.3-Linux-x86_64.sh'', ''installer'')] else []),
         clean_these_files :=
           clean_these_files st @ [''resources/napari_164x314.png'', ''construct.yaml'',
                                   ''/tmp/tmpab12'']\<rparr>)"

section \<open>Properties of the selection commands\<close>

lemma view_subset_iff:
  "(view_indices layer |\<inter>| selected_data layer = view_indices layer) =
   (view_indices layer |\<subseteq>| selected_data layer)"
  by auto

lemma select_all_in_slice_selected:
  "selected_data (fst (select_all_in_slice layer)) =
     (if view_indices layer |\<subseteq>| selected_data layer
      then selected_data layer |-| view_indices layer
      else selected_data layer |\<union>| view_indices layer)"
  by (simp add: select_all_in_slice_def Let_def view_subset_iff)

lemma select_all_in_slice_view:
  "view_indices (fst (select_all_in_slice layer)) = view_indices layer"
  by (simp add: select_all_in_slice_def Let_def view_indices_def)

lemma twice_select_all_in_slice:
  "selected_data (twice select_all_in_slice layer) =
     (if view_indices layer |\<subseteq>| selected_data layer then selected_data layer
      else selected_data layer |-| view_indices layer)"
proof (cases "view_indices layer |\<subseteq>| selected_data layer")
  case True
  show ?thesis
  proof (cases "view_indices layer = {||}")
    case True
    then show ?thesis
      by (simp add: twice_def select_all_in_slice_selected select_all_in_slice_view)
  next
    case False
    with True show ?thesis
      by (auto simp: twice_def select_all_in_slice_selected select_all_in_slice_view)
  qed
next
  case False
  then show ?thesis
    by (auto simp: twice_def select_all_in_slice_selected select_all_in_slice_view)
qed

text \<open>
  C1 (as stated): two presses of select-in-slice give back the original selection. This
  fails when only part of the visible points is selected: with points 0 and 1 visible and
  only point 0 selected, the first press selects both and the second press deselects both,
  so the selection ends empty instead of \<open>{0}\<close>.
\<close>

theorem select_all_in_slice_twice_counterexample:
  "selected_data (twice select_all_in_slice
      \<lparr>data = [(), (), ()], selected_data = {|0|}, indices_view = [0, 1],
       view_data = [(), ()]\<rparr>)
   \<noteq> selected_data
      \<lparr>data = [(), (), ()], selected_data = {|0|}, indices_view = [0, 1],
       view_data = [(), ()]\<rparr>"
  by code_simp

text \<open>
  C1 (amended): two presses of select-in-slice give back the original selection whenever
  the visible points are either all selected or all unselected beforehand.
\<close>

theorem select_all_in_slice_twice:
  "view_indices layer |\<subseteq>| selected_data layer
     \<or> view_indices layer |\<inter>| selected_data layer = {||}
   \<Longrightarrow> selected_data (twice select_all_in_slice layer) = selected_data layer"
  by (auto simp: twice_select_all_in_slice)

theorem select_all_in_slice_twice_witness:
  "(view_indices \<lparr>data = [(), (), ()], selected_data = {|2|}, indices_view = [0, 1],
       view_data = [(), ()]\<rparr> |\<inter>| {|2|} = {||})
   \<and> selected_data (twice select_all_in_slice
       \<lparr>data = [(), (), ()], selected_data = {|2|}, indices_view = [0, 1],
        view_data = [(), ()]\<rparr>) = {|2|}"
proof -
  let ?l = "\<lparr>data = [(), (), ()], selected_data = {|2::int|}, indices_view = [0, 1],
       view_data = [(), ()]\<rparr>"
  have h: "view_indices ?l |\<inter>| selected_data ?l = {||}" by code_simp
  from h select_all_in_slice_twice [of ?l] show ?thesis by simp
qed

text \<open>
  C3: select-in-slice computes the visible index set \<open>V\<close>; when \<open>V \<inter> S = V\<close> holds
  exactly for the current selection \<open>S\<close> the new selection is \<open>S - V\<close>, and otherwise it
  is \<open>S \<union> V\<close>.
\<close>

theorem select_all_in_slice_toggle:
  "selected_data (fst (select_all_in_slice layer)) =
     (if view_indices layer |\<inter>| selected_data layer = view_indices layer
      then selected_data layer |-| view_indices layer
      else selected_data layer |\<union>| view_indices layer)"
  by (simp add: select_all_in_slice_def Let_def)

theorem select_all_in_slice_toggle_witness:
  "selected_data (fst (select_all_in_slice
      \<lparr>data = [(), (), ()], selected_data = {|0, 1, 2|}, indices_view = [0, 1],
       view_data = [(), ()]\<rparr>)) = {|2|}
   \<and> selected_data (fst (select_all_in_slice
      \<lparr>data = [(), (), ()], selected_data = {|0, 2|}, indices_view = [0, 1],
       view_data = [(), ()]\<rparr>)) = {|0, 1, 2|}"
proof -
  let ?a = "\<lparr>data = [(), (), ()], selected_data = {|0::int, 1, 2|}, indices_view = [0, 1],
       view_data = [(), ()]\<rparr>"
  let ?b = "\<lparr>data = [(), (), ()], selected_data = {|0::int, 2|}, indices_view = [0, 1],
       view_data = [(), ()]\<rparr>"
  have a: "(if view_indices ?a |\<inter>| selected_data ?a = view_indices ?a
            then selected_data ?a |-| view_indices ?a
            else selected_data ?a |\<union>| view_indices ?a) = {|2|}"
    by code_simp
  have b: "(if view_indices ?b |\<inter>| selected_data ?b = view_indices ?b
            then selected_data ?b |-| view_indices ?b
            else selected_data ?b |\<union>| view_indices ?b) = {|0, 1, 2|}"
    by code_simp
  from a b select_all_in_slice_toggle [of ?a] select_all_in_slice_toggle [of ?b]
  show ?thesis by simp
qed



text \<open>
  What the code tests is the number of selected indices, whatever they are.
\<close>

lemma select_all_data_by_count:
  "selected_data (fst (select_all_data layer)) =
     (if fcard (selected_data layer) = length (data layer) then {||} else all_indices layer)"
  by (simp add: select_all_data_def Let_def)




text \<open>
  C10: when no index is visible, select-in-slice leaves the selection (and the whole layer)
  as it is; the deselect branch is the one taken, as the message shows.
\<close>

theorem select_all_in_slice_empty_view:
  "view_indices layer = {||} \<Longrightarrow>
   select_all_in_slice layer = (layer, Deselected_in_slice (fcard (selected_data layer)))
   \<and> selected_data (fst (select_all_in_slice layer)) = selected_data layer"
  by (simp add: select_all_in_slice_def Let_def)

theorem select_all_in_slice_empty_view_witness:
  "view_indices
      \<lparr>data = [(), (), ()], selected_data = {|0, 2|}, indices_view = [0, 1], view_data = []\<rparr>
     = {||}
   \<and> select_all_in_slice
      \<lparr>data = [(), (), ()], selected_data = {|0, 2|}, indices_view = [0, 1], view_data = []\<rparr>
     = (\<lparr>data = [(), (), ()], selected_data = {|0, 2|}, indices_view = [0, 1],
         view_data = []\<rparr>, Deselected_in_slice 2)"
proof -
  let ?l = "\<lparr>data = [(), (), ()], selected_data = {|0::int, 2|}, indices_view = [0, 1],
             view_data = []\<rparr>"
  have h: "view_indices ?l = {||}" by code_simp
  have c: "fcard (selected_data ?l) = 2" by code_simp
  from h c select_all_in_slice_empty_view [OF h] show ?thesis by simp
qed

section \<open>Properties of version resolution\<close>

lemma re_search_skip:
  "no_match_before ps pre rest \<Longrightarrow> re_search ps (pre @ rest) = re_search ps rest"
  by (induction pre) auto

lemma version_line_match:
  "match_here version_pattern (''version = '1.2.3+abc'' @ [CHR 0x27] @ suf) = Some ''1.2.3+abc''"
  by (simp add: version_pattern_def isspace_def)

lemma version_line_search:
  "re_search version_pattern (''version = '1.2.3+abc'' @ [CHR 0x27] @ suf) = Some ''1.2.3+abc''"
  using version_line_match [of suf] by simp

text \<open>
  C2: without the override variable and without a match in the version file, version
  resolution should fail. The code does so only when the file cannot be opened; for a file
  that is there and has no match, \<^verbatim>\<open>if match:\<close> has no other branch, the function ends
  and returns \<^verbatim>\<open>None\<close>, which the installer name then spells out. Here the file assigns
  the version in double quotes.
\<close>

theorem get_version_unmatched_returns_None:
  "get_version Map.empty (Some ''__version__ = \"1.2.3\"'') = Inr None
   \<and> OUTPUT_FILENAME sample_constants Map.empty (Some ''__version__ = \"1.2.3\"'')
       = Inr ''napari-None-Linux-x86_64.sh''"
  by code_simp

lemma get_version_missing_file:
  "env ''CONSTRUCTOR_NAPARI_VERSION'' = None \<Longrightarrow> get_version env None = Inl FileNotFoundError"
  by (simp add: get_version_def)

text \<open>
  C5 (as stated): with the override variable absent and a version file that contains the
  text \<^verbatim>\<open>version = '1.2.3+abc'\<close>, \<^verbatim>\<open>_get_version\<close> returns \<^verbatim>\<open>"1.2.3"\<close>. The search
  takes the leftmost match, so this fails for a file that contains the text after an
  earlier version assignment: with the line \<^verbatim>\<open>version = '9.9'\<close> before it the result is
  \<^verbatim>\<open>"9.9"\<close>.
\<close>

theorem get_version_strips_local_suffix_counterexample:
  "get_version Map.empty
     (Some (''version = '9.9'' @ [CHR 0x27, CHR 0x0A] @ ''version = '1.2.3+abc'' @ [CHR 0x27]))
     = Inr (Some ''9.9'')
   \<and> get_version Map.empty
     (Some (''version = '9.9'' @ [CHR 0x27, CHR 0x0A] @ ''version = '1.2.3+abc'' @ [CHR 0x27]))
     \<noteq> Inr (Some ''1.2.3'')"
  by code_simp

text \<open>
  C5 (amended): with the override variable absent and a version file that contains the
  text \<^verbatim>\<open>version = '1.2.3+abc'\<close> with no match of the pattern starting before it,
  \<^verbatim>\<open>_get_version\<close> returns \<^verbatim>\<open>"1.2.3"\<close>. The file may go on after that text in any way;
  the file that is exactly that text is the case of an empty prefix.
\<close>

theorem get_version_strips_local_suffix:
  "env ''CONSTRUCTOR_NAPARI_VERSION'' = None \<Longrightarrow>
   no_match_before version_pattern pre (''version = '1.2.3+abc'' @ [CHR 0x27] @ suf) \<Longrightarrow>
   get_version env (Some (pre @ ''version = '1.2.3+abc'' @ [CHR 0x27] @ suf)) = Inr (Some ''1.2.3'')"
proof -
  assume unset: "env ''CONSTRUCTOR_NAPARI_VERSION'' = None"
    and first: "no_match_before version_pattern pre (''version = '1.2.3+abc'' @ [CHR 0x27] @ suf)"
  have "re_search version_pattern (pre @ ''version = '1.2.3+abc'' @ [CHR 0x27] @ suf)
        = Some ''1.2.3+abc''"
    using re_search_skip [OF first] version_line_search [of suf] by simp
  then show ?thesis
    using unset by (simp add: get_version_def item_def)
qed

theorem get_version_strips_local_suffix_witness:
  "get_version Map.empty (Some (''version = '1.2.3+abc'' @ [CHR 0x27])) = Inr (Some ''1.2.3'')
   \<and> no_match_before version_pattern sample_version_prefix
        (''version = '1.2.3+abc'' @ [CHR 0x27] @ sample_version_suffix)
   \<and> get_version Map.empty
        (Some (sample_version_prefix @ ''version = '1.2.3+abc'' @ [CHR 0x27] @ sample_version_suffix))
      = Inr (Some ''1.2.3'')"
proof -
  have unset: "(Map.empty :: environ) ''CONSTRUCTOR_NAPARI_VERSION'' = None" by simp
  have n0: "no_match_before version_pattern [] (''version = '1.2.3+abc'' @ [CHR 0x27] @ [])"
    by simp
  have n1: "no_match_before version_pattern sample_version_prefix
              (''version = '1.2.3+abc'' @ [CHR 0x27] @ sample_version_suffix)"
    by code_simp
  from n1 get_version_strips_local_suffix [OF unset n0]
       get_version_strips_local_suffix [OF unset n1]
  show ?thesis by simp
qed

text \<open>
  C6: whenever the override variable is set, \<^verbatim>\<open>_get_version\<close> returns its value, and
  the version file has no influence: any two states of the file, a missing file included,
  give the same result.
\<close>

theorem override_takes_precedence:
  "env ''CONSTRUCTOR_NAPARI_VERSION'' = Some v \<Longrightarrow>
   get_version env contents = Inr (Some v)
   \<and> get_version env contents' = get_version env contents"
  by (simp add: get_version_def)

theorem override_takes_precedence_witness:
  "get_version [''CONSTRUCTOR_NAPARI_VERSION'' \<mapsto> ''0.5.0'']
      (Some (''version = '1.2.3+abc'' @ [CHR 0x27])) = Inr (Some ''0.5.0'')
   \<and> get_version [''CONSTRUCTOR_NAPARI_VERSION'' \<mapsto> ''0.5.0''] None = Inr (Some ''0.5.0'')"
proof -
  let ?env = "[''CONSTRUCTOR_NAPARI_VERSION'' \<mapsto> ''0.5.0'']"
  have h: "?env ''CONSTRUCTOR_NAPARI_VERSION'' = Some ''0.5.0''" by simp
  from override_takes_precedence
         [where env = ?env and v = "''0.5.0''" and contents' = None
            and contents = "Some (''version = '1.2.3+abc'' @ [CHR 0x27])", OF h]
  show ?thesis by simp
qed

section \<open>Properties of the definitions\<close>

lemma map_of_assign:
  "map_of (assign k v d) k' = (if k' = k then Some v else map_of d k')"
  by (simp add: assign_def update_conv')

lemma map_of_assign_if_set:
  "k' \<noteq> k \<Longrightarrow> map_of (assign_if_set env name k d) k' = map_of d k'"
  by (simp add: assign_if_set_def map_of_assign split: option.splits)

lemma initial_definitions_version:
  "map_of (initial_definitions mc env version deps out tmp) ''version'' = Some (py_value version)"
  by (simp add: initial_definitions_def map_of_assign)

lemma initial_definitions_filename:
  "map_of (initial_definitions mc env version deps out tmp) ''installer_filename'' = Some (Str out)"
  by (simp add: initial_definitions_def map_of_assign)

lemma initial_definitions_extra_envs:
  "map_of (initial_definitions mc env version deps out tmp) ''extra_envs'' =
     Some (Dict [(''napari-'' @ fmt version, Dict [(''specs'', Seq (map Str (napari deps)))])])"
  by (simp add: initial_definitions_def map_of_assign)

lemma linux_definitions_keeps:
  "k \<in> version_keys \<Longrightarrow> map_of (linux_definitions mc version d) k = map_of d k"
  by (auto simp: version_keys_def linux_definitions_def map_of_assign)

lemma macos_definitions_keeps:
  "macos_definitions mc env version tmpl d = Inr d' \<Longrightarrow> k \<in> version_keys \<Longrightarrow>
   map_of d' k = map_of d k"
  by (auto simp: version_keys_def macos_definitions_def map_of_assign map_of_assign_if_set
           split: option.splits)

lemma windows_definitions_keeps:
  "windows_definitions mc env version d = Inr d' \<Longrightarrow> k \<in> version_keys \<Longrightarrow>
   map_of d' k = map_of d k"
  by (auto simp: version_keys_def windows_definitions_def append_default_channel_def
                 map_of_assign map_of_assign_if_set
           split: option.splits sum.splits yaml.splits)

text \<open>
  The platform branches never assign to the three keys again: in the finished dictionary
  they still hold what the dictionary literal put there.
\<close>

lemma constructor_definitions_keys:
  assumes run: "constructor_definitions mc inp = Inr d" and key: "k \<in> version_keys"
  shows "\<exists>version deps out.
           get_version (environ inp) (version_py inp) = Inr version \<and>
           OUTPUT_FILENAME mc (environ inp) (version_py inp) = Inr out \<and>
           map_of d k = map_of (initial_definitions mc (environ inp) version deps out
                                  (empty_file_name inp)) k"
proof -
  from run obtain out version deps where
    out: "OUTPUT_FILENAME mc (environ inp) (version_py inp) = Inr out" and
    version: "get_version (environ inp) (version_py inp) = Inr version" and
    deps: "get_dependencies inp = Inr deps"
    by (auto simp: constructor_definitions_def split: sum.splits option.splits)
  have "map_of d k =
        map_of (initial_definitions mc (environ inp) version deps out (empty_file_name inp)) k"
    using run out version deps key
    by (auto simp: constructor_definitions_def Let_def linux_definitions_keeps
             split: sum.splits option.splits if_splits)
       (metis linux_definitions_keeps macos_definitions_keeps windows_definitions_keeps)+
  then show ?thesis
    using out version by auto
qed

text \<open>
  C9: when the override variable is set, \<^verbatim>\<open>_get_version\<close> returns its value as it is,
  with no suffix stripped, and that value goes unchanged into the installer file name, the
  \<^verbatim>\<open>version\<close> entry of the definitions and the name of the extra environment.
\<close>

theorem override_version_verbatim:
  "environ inp ''CONSTRUCTOR_NAPARI_VERSION'' = Some v \<Longrightarrow>
   get_version (environ inp) (version_py inp) = Inr (Some v)
   \<and> OUTPUT_FILENAME mc (environ inp) (version_py inp) =
       Inr (APP mc @ ''-'' @ v @ ''-'' @ OS mc @ ''-'' @ ARCH mc @ ''.'' @ EXT mc)
   \<and> (case constructor_definitions mc inp of
         Inl e \<Rightarrow> True
       | Inr d \<Rightarrow>
           map_of d ''version'' = Some (Str v)
           \<and> map_of d ''installer_filename'' =
               Some (Str (APP mc @ ''-'' @ v @ ''-'' @ OS mc @ ''-'' @ ARCH mc @ ''.'' @ EXT mc))
           \<and> (\<exists>specs. map_of d ''extra_envs'' = Some (Dict [(''napari-'' @ v, specs)])))"
proof -
  assume override: "environ inp ''CONSTRUCTOR_NAPARI_VERSION'' = Some v"
  have version: "get_version (environ inp) (version_py inp) = Inr (Some v)"
    using override by (simp add: get_version_def)
  have out: "OUTPUT_FILENAME mc (environ inp) (version_py inp) =
       Inr (APP mc @ ''-'' @ v @ ''-'' @ OS mc @ ''-'' @ ARCH mc @ ''.'' @ EXT mc)"
    using version by (simp add: OUTPUT_FILENAME_def fmt_def)
  have fields: "map_of d ''version'' = Some (Str v)
           \<and> map_of d ''installer_filename'' =
               Some (Str (APP mc @ ''-'' @ v @ ''-'' @ OS mc @ ''-'' @ ARCH mc @ ''.'' @ EXT mc))
           \<and> (\<exists>specs. map_of d ''extra_envs'' = Some (Dict [(''napari-'' @ v, specs)]))"
    if run: "constructor_definitions mc inp = Inr d" for d
  proof -
    have a: "map_of d ''version'' = Some (Str v)"
      using constructor_definitions_keys [OF run, of "''version''"] version out
      by (auto simp: version_keys_def initial_definitions_version py_value_def)
    have b: "map_of d ''installer_filename'' =
               Some (Str (APP mc @ ''-'' @ v @ ''-'' @ OS mc @ ''-'' @ ARCH mc @ ''.'' @ EXT mc))"
      using constructor_definitions_keys [OF run, of "''installer_filename''"] version out
      by (auto simp: version_keys_def initial_definitions_filename)
    have c: "\<exists>specs. map_of d ''extra_envs'' = Some (Dict [(''napari-'' @ v, specs)])"
      using constructor_definitions_keys [OF run, of "''extra_envs''"] version out
      by (auto simp: version_keys_def initial_definitions_extra_envs fmt_def)
    from a b c show ?thesis by simp
  qed
  from version out fields show ?thesis
    by (simp split: sum.splits)
qed

theorem override_version_verbatim_witness:
  "environ sample_inputs ''CONSTRUCTOR_NAPARI_VERSION'' = Some ''1.2.3+abc''
   \<and> get_version (environ sample_inputs) (version_py sample_inputs) = Inr (Some ''1.2.3+abc'')
   \<and> OUTPUT_FILENAME sample_constants (environ sample_inputs) (version_py sample_inputs) =
       Inr ''napari-1.2.3+abc-Linux-x86_64.sh''
   \<and> (case constructor_definitions sample_constants sample_inputs of
         Inl e \<Rightarrow> False
       | Inr d \<Rightarrow>
           map_of d ''version'' = Some (Str ''1.2.3+abc'')
           \<and> map_of d ''installer_filename'' = Some (Str ''napari-1.2.3+abc-Linux-x86_64.sh'')
           \<and> (\<exists>specs. map_of d ''extra_envs'' = Some (Dict [(''napari-1.2.3+abc'', specs)])))"
proof -
  have override: "environ sample_inputs ''CONSTRUCTOR_NAPARI_VERSION'' = Some ''1.2.3+abc''"
    by (simp add: sample_inputs_def)
  have returns: "\<not> isl (constructor_definitions sample_constants sample_inputs)"
    by code_simp
  have name: "APP sample_constants @ ''-'' @ ''1.2.3+abc'' @ ''-'' @ OS sample_constants @ ''-'' @
              ARCH sample_constants @ ''.'' @ EXT sample_constants
              = ''napari-1.2.3+abc-Linux-x86_64.sh''"
    by (simp add: sample_constants_def)
  from override returns name
       override_version_verbatim [OF override, of sample_constants]
  show ?thesis
    by (cases "constructor_definitions sample_constants sample_inputs") simp_all
qed

section \<open>Properties of the license archive\<close>

lemma split_once_contains:
  "contains sep s \<Longrightarrow> sep \<noteq> [] \<Longrightarrow> length (split_once sep s) = 2"
proof (induction s)
  case Nil
  then show ?case by simp
next
  case (Cons c cs)
  show ?case
  proof (cases "match_literal sep (c # cs)")
    case (Some rest)
    then show ?thesis by simp
  next
    case None
    with Cons have "length (split_once sep cs) = 2" by simp
    with None show ?thesis by (cases "split_once sep cs") simp_all
  qed
qed

lemma package_name_found:
  "contains ''::'' package_id \<Longrightarrow> \<exists>package_name. item (split_once ''::'' package_id) 1 = Inr package_name"
  using split_once_contains [of "''::''" package_id] by (simp add: item_def)

lemma write_license_files_length:
  "list_all (\<lambda>license_file. files license_file \<noteq> None) license_files \<Longrightarrow>
   \<exists>ys. write_license_files files package_name license_type i license_files z = Inr (z @ ys)
        \<and> length ys = length license_files"
proof (induction license_files arbitrary: i z)
  case Nil
  then show ?case by simp
next
  case (Cons license_file rest)
  then obtain content where c: "files license_file = Some content" by auto
  from Cons.prems have rest: "list_all (\<lambda>license_file. files license_file \<noteq> None) rest"
    by simp
  let ?entry = "(package_name @ ''.'' @ replace_char CHR '' '' CHR ''_'' license_type @ ''.'' @
                 str_nat i @ ''.txt'', content)"
  from Cons.IH [OF rest, of "Suc i" "z @ [?entry]"] obtain ys where
    ys: "write_license_files files package_name license_type (Suc i) rest (z @ [?entry])
         = Inr ((z @ [?entry]) @ ys)" "length ys = length rest"
    by blast
  have "write_license_files files package_name license_type i (license_file # rest) z
        = Inr (z @ (?entry # ys))"
    using c ys(1) by (simp add: zip_write_def del: str_nat.simps)
  moreover have "length (?entry # ys) = length (license_file # rest)"
    using ys(2) by simp
  ultimately show ?case by blast
qed

lemma write_license_info_length:
  "list_all (\<lambda>(license_type, license_files).
      list_all (\<lambda>license_file. files license_file \<noteq> None) license_files) license_info \<Longrightarrow>
   \<exists>ys. write_license_info files package_name license_info z = Inr (z @ ys)
        \<and> length ys =
             sum_list (map (\<lambda>(license_type, license_files). length license_files) license_info)"
proof (induction license_info arbitrary: z)
  case Nil
  then show ?case by simp
next
  case (Cons entry rest)
  obtain license_type license_files where e: "entry = (license_type, license_files)"
    by (cases entry)
  from Cons.prems e obtain ys where
    ys: "write_license_files files package_name license_type 1 license_files z = Inr (z @ ys)"
        "length ys = length license_files"
    using write_license_files_length [of files license_files package_name license_type 1 z]
    by auto
  from Cons.prems have "list_all (\<lambda>(license_type, license_files).
      list_all (\<lambda>license_file. files license_file \<noteq> None) license_files) rest" by simp
  from Cons.IH [OF this, of "z @ ys"] ys e show ?case by fastforce
qed

lemma write_packages_length:
  "qualified_ids table \<Longrightarrow> license_files_present files table \<Longrightarrow>
   \<exists>ys. write_packages files table z = Inr (z @ ys) \<and> length ys = n_license_files table"
proof (induction table arbitrary: z)
  case Nil
  then show ?case by (simp add: n_license_files_def)
next
  case (Cons entry rest)
  obtain package_id license_info where e: "entry = (package_id, license_info)"
    by (cases entry)
  from Cons.prems e obtain package_name where
    n: "item (split_once ''::'' package_id) 1 = Inr package_name"
    using package_name_found [of package_id] by (auto simp: qualified_ids_def)
  from Cons.prems e obtain ys where
    ys: "write_license_info files package_name license_info z = Inr (z @ ys)"
        "length ys =
           sum_list (map (\<lambda>(license_type, license_files). length license_files) license_info)"
    using write_license_info_length [of files license_info package_name z]
    by (auto simp: license_files_present_def)
  from Cons.prems have r: "qualified_ids rest" "license_files_present files rest"
    by (simp_all add: qualified_ids_def license_files_present_def)
  from Cons.IH [OF r, of "z @ ys"] ys n e show ?case
    by (fastforce simp: n_license_files_def)
qed

text \<open>
  C7: for a manifest that lists \<open>N\<close> license files, over any number of packages, the
  archive \<^verbatim>\<open>licenses\<close> writes has \<open>N + 1\<close> entries: the manifest itself, then one entry
  per license file. The manifest is there and decodes, its package identifiers have the
  form \<^verbatim>\<open>channel::name\<close> and the license files it lists can be read.
\<close>

theorem licenses_archive_size:
  "files ''info.json'' = Some contents \<Longrightarrow>
   json_load contents = Inr info \<Longrightarrow>
   licenses_entry info = Some table \<Longrightarrow>
   qualified_ids table \<Longrightarrow>
   license_files_present files table \<Longrightarrow>
   \<exists>ys. licenses json_load mc files =
          Inr (''licenses.'' @ OS mc @ ''-'' @ ARCH mc @ ''.zip'', (''info.json'', contents) # ys)
       \<and> length ys = n_license_files table
       \<and> length ((''info.json'', contents) # ys) = n_license_files table + 1"
proof -
  assume manifest: "files ''info.json'' = Some contents" "json_load contents = Inr info"
    "licenses_entry info = Some table"
    and ok: "qualified_ids table" "license_files_present files table"
  from write_packages_length [OF ok, of "[(''info.json'', contents)]"]
  obtain ys where "write_packages files table [(''info.json'', contents)]
                   = Inr ([(''info.json'', contents)] @ ys)"
    "length ys = n_license_files table"
    by auto
  with manifest show ?thesis
    by (simp add: licenses_def zip_write_def)
qed

theorem licenses_archive_size_witness:
  "sample_files ''info.json'' = Some ''{...}''
   \<and> sample_json_load ''{...}'' = Inr \<lparr>licenses_entry = Some sample_table\<rparr>
   \<and> qualified_ids sample_table
   \<and> license_files_present sample_files sample_table
   \<and> n_license_files sample_table = 3
   \<and> (\<exists>ys. licenses sample_json_load sample_constants sample_files =
             Inr (''licenses.Linux-x86_64.zip'', (''info.json'', ''{...}'') # ys)
          \<and> length ((''info.json'', ''{...}'') # ys) = 3 + 1)"
proof -
  have f: "sample_files ''info.json'' = Some ''{...}''"
    by (simp add: sample_files_def)
  have j: "sample_json_load ''{...}'' = Inr \<lparr>licenses_entry = Some sample_table\<rparr>"
    by (simp add: sample_json_load_def)
  have e: "licenses_entry \<lparr>licenses_entry = Some sample_table\<rparr> = Some sample_table"
    by simp
  have q: "qualified_ids sample_table" by code_simp
  have p: "license_files_present sample_files sample_table" by code_simp
  have n: "n_license_files sample_table = 3" by code_simp
  have name: "OS sample_constants = ''Linux''" "ARCH sample_constants = ''x86_64''"
    by (simp_all add: sample_constants_def)
  from licenses_archive_size
         [where files = sample_files and json_load = sample_json_load
            and mc = sample_constants, OF f j e q p]
       f j q p n name
  show ?thesis by simp
qed

section \<open>Properties of the cleanup\<close>

lemma cleanup_best_effort:
  assumes only_os: "\<And>f path e. os_unlink f path = Inl e \<Longrightarrow> is_OSError e"
  shows "cleanup os_unlink paths st =
           (Inr (), st\<lparr>fs := after_deletions os_unlink paths (fs st),
                       stdout := stdout st @ map (\<lambda>path. ''! Could not remove '' @ path)
                                   (failed_deletions os_unlink paths (fs st)),
                       unlink_calls := unlink_calls st @ paths\<rparr>)"
proof (induction paths arbitrary: st)
  case Nil
  show ?case by simp
next
  case (Cons path rest)
  show ?case
  proof (cases "os_unlink (fs st) path")
    case (Inl e)
    with only_os have "is_OSError e" by blast
    with Inl show ?thesis by (simp add: Cons.IH Let_def)
  next
    case (Inr f')
    then show ?thesis by (simp add: Cons.IH Let_def)
  qed
qed

text \<open>
  C8: whether the build step returned or raised, the cleanup calls \<^verbatim>\<open>os.unlink\<close> on
  every registered file, in order; a deletion that fails prints a line and the loop goes
  on; and the outcome of \<^verbatim>\<open>main\<close> is that of the build: its exception if it raised,
  and otherwise the check that the installer exists. (\<^verbatim>\<open>os.unlink\<close> raises no exception
  outside the \<^verbatim>\<open>OSError\<close> class.)
\<close>

theorem main_cleanup_best_effort:
  assumes only_os: "\<And>f path e. os_unlink f path = Inl e \<Longrightarrow> is_OSError e"
    and build: "constructor st = (built, st1)"
  shows "main os_unlink path_exists constructor output_filename st =
           ((case built of
               Inl e \<Rightarrow> Inl e
             | Inr name \<Rightarrow>
                 if path_exists (after_deletions os_unlink (clean_these_files st1) (fs st1))
                      output_filename
                 then Inr output_filename else Inl AssertionError),
            st1\<lparr>fs := after_deletions os_unlink (clean_these_files st1) (fs st1),
                stdout := stdout st1 @ map (\<lambda>path. ''! Could not remove '' @ path)
                            (failed_deletions os_unlink (clean_these_files st1) (fs st1)),
                unlink_calls := unlink_calls st1 @ clean_these_files st1\<rparr>)"
  using build cleanup_best_effort [of os_unlink "clean_these_files st1" st1, OF only_os]
  by (simp add: main_def split: sum.splits)

lemma unlink_file_OSError: "unlink_file f path = Inl e \<Longrightarrow> is_OSError e"
  by (auto simp: unlink_file_def split: option.splits)

theorem main_cleanup_best_effort_witness:
  "main unlink_file file_exists (sample_build False) ''napari-1.2.3-Linux-x86_64.sh'' sample_state =
     (Inl (Other_error ''CalledProcessError''),
      \<lparr>fs = [(''setup.cfg'', ''cfg'')],
       clean_these_files = [''resources/napari_164x314.png'', ''construct.yaml'', ''/tmp/tmpab12''],
       stdout = [''! Could not remove resources/napari_164x314.png''],
       unlink_calls = [''resources/napari_164x314.png'', ''construct.yaml'', ''/tmp/tmpab12'']\<rparr>)
   \<and> main unlink_file file_exists (sample_build True) ''napari-1.2.3-Linux-x86_64.sh'' sample_state =
     (Inr ''napari-1.2.3-Linux-x86_64.sh'',
      \<lparr>fs = [(''setup.cfg'', ''cfg''), (''napari-1.2.3-Linux-x86_64.sh'', ''installer'')],
       clean_these_files = [''resources/napari_164x314.png'', ''construct.yaml'', ''/tmp/tmpab12''],
       stdout = [''! Could not remove resources/napari_164x314.png''],
       unlink_calls = [''resources/napari_164x314.png'', ''construct.yaml'', ''/tmp/tmpab12'']\<rparr>)"
proof -
  let ?paths = "[''resources/napari_164x314.png'', ''construct.yaml'', ''/tmp/tmpab12'']"
  let ?f0 = "[(''setup.cfg'', ''cfg''), (''construct.yaml'', ''name: napari''), (''/tmp/tmpab12'', [])]"
  let ?f1 = "?f0 @ [(''napari-1.2.3-Linux-x86_64.sh'', ''installer'')]"
  let ?s0 = "\<lparr>fs = ?f0, clean_these_files = ?paths, stdout = [], unlink_calls = []\<rparr>"
  let ?s1 = "\<lparr>fs = ?f1, clean_these_files = ?paths, stdout = [], unlink_calls = []\<rparr>"
  have b0: "sample_build False sample_state = (Inl (Other_error ''CalledProcessError''), ?s0)"
    by (simp add: sample_build_def sample_state_def)
  have b1: "sample_build True sample_state = (Inr ''napari-1.2.3-Linux-x86_64.sh'', ?s1)"
    by (simp add: sample_build_def sample_state_def)
  have a0: "after_deletions unlink_file ?paths ?f0 = [(''setup.cfg'', ''cfg'')]"
    by code_simp
  have a1: "after_deletions unlink_file ?paths ?f1 =
            [(''setup.cfg'', ''cfg''), (''napari-1.2.3-Linux-x86_64.sh'', ''installer'')]"
    by code_simp
  have l0: "failed_deletions unlink_file ?paths ?f0 = [''resources/napari_164x314.png'']"
    by code_simp
  have l1: "failed_deletions unlink_file ?paths ?f1 = [''resources/napari_164x314.png'']"
    by code_simp
  have e: "file_exists [(''setup.cfg'', ''cfg''), (''napari-1.2.3-Linux-x86_64.sh'', ''installer'')]
             ''napari-1.2.3-Linux-x86_64.sh''"
    by code_simp
  from main_cleanup_best_effort
         [where os_unlink = unlink_file and path_exists = file_exists
            and output_filename = "''napari-1.2.3-Linux-x86_64.sh''"
            and constructor = "sample_build False" and st = sample_state,
          OF unlink_file_OSError b0]
       main_cleanup_best_effort
         [where os_unlink = unlink_file and path_exists = file_exists
            and output_filename = "''napari-1.2.3-Linux-x86_64.sh''"
            and constructor = "sample_build True" and st = sample_state,
          OF unlink_file_OSError b1]
       a0 a1 l0 l1 e
  show ?thesis by simp
qed

end
